theory Spec2Isabelle
  imports Main "HOL-Library.Word"
begin

section \<open>The interpreter of \<^verbatim>\<open>brain_fuck.cpp\<close>\<close>

text \<open>
  The source is one C++ file: \<^verbatim>\<open>count_operators\<close>, \<open>get_input\<close> and
  \<open>main\<close>, whose second half is the interpretation loop. The model below follows
  that loop statement by statement and keeps the names of the source's variables.

  \<^item> A tape cell is a C++ \<open>char\<close>: an \<open>8 word\<close>, so that \<open>+= 1\<close> and
    \<open>-= 1\<close> wrap around. Comparisons of a cell read it as a signed byte (\<open>sint\<close>).
  \<^item> The tape \<open>map<int, char> stack\<close> is a partial map; \<open>stack[pointer]\<close>
    creates a zero cell when the key is absent, which \<open>touch\<close> writes out.
  \<^item> The \<open>int\<close> variables are modelled as unbounded integers (an \<open>int\<close> of the source
    overflows only after more than \<open>2^31\<close> steps); the instruction index is never
    negative and is a natural number.
  \<^item> Every \<open>throw -1\<close> is a value of \<open>error\<close>. Two more values mark the places where
    the source has no defined behaviour: reading \<open>instructions[index]\<close> beyond the
    string's terminator, and \<open>pop_back\<close> on an empty vector.
\<close>

subsection \<open>Counting operators\<close>

definition operators :: string where
  "operators = ''+-./<>[]''"

definition count_operators :: "string \<Rightarrow> int" where
  "count_operators instructions =
     fold (\<lambda>instruction operator_count.
             if instruction \<in> set operators then operator_count + 1 else operator_count)
          instructions 0"

subsection \<open>State of the interpretation loop\<close>

type_synonym cell = "8 word"

datatype error =
    InputError                \<comment> \<open>\<open>get_input\<close> throws: stream not good, or empty line\<close>
  | ResourceLimitExceeded     \<comment> \<open>"Stack size limit reached"\<close>
  | UnbalancedLoop            \<comment> \<open>"Syntax error"\<close>
  | ReadPastEnd               \<comment> \<open>undefined: \<open>instructions[index]\<close> with \<open>index > size()\<close>\<close>
  | PopEmpty                  \<comment> \<open>undefined: \<open>pop_back()\<close> on an empty vector\<close>

record engine =
  index :: nat
  pointer :: int
  stack :: "int \<rightharpoonup> cell"
  loop_start_indices :: "nat list"
  lowest_cell :: int
  greatest_cell :: int
  operations :: int
  left_shifts :: int
  right_shifts :: int
  cout :: string
  cin :: "string list"

text \<open>The variables as \<open>main\<close> declares them before the loop; \<open>lines\<close> are the
  lines that standard input will deliver.\<close>

definition fresh :: "string list \<Rightarrow> engine" where
  "fresh lines =
     \<lparr> index = 0, pointer = 0, stack = Map.empty, loop_start_indices = [],
       lowest_cell = 0, greatest_cell = 0, operations = 0,
       left_shifts = 0, right_shifts = 0, cout = [], cin = lines \<rparr>"

text \<open>\<open>stack[pointer]\<close>: the value read, and the entry the read creates.\<close>

definition cell_at :: "(int \<rightharpoonup> cell) \<Rightarrow> int \<Rightarrow> cell" where
  "cell_at m p = (case m p of None \<Rightarrow> 0 | Some v \<Rightarrow> v)"

definition touch :: "(int \<rightharpoonup> cell) \<Rightarrow> int \<Rightarrow> (int \<rightharpoonup> cell)" where
  "touch m p = (case m p of None \<Rightarrow> m(p \<mapsto> 0) | Some v \<Rightarrow> m)"

text \<open>\<open>instructions[index]\<close> on a \<open>std::string\<close>: the character, the terminator
  \<open>'\0'\<close> at \<open>index = size()\<close>, and nothing defined beyond.\<close>

definition char_at :: "string \<Rightarrow> nat \<Rightarrow> char option" where
  "char_at instructions i =
     (if i < length instructions then Some (instructions ! i)
      else if i = length instructions then Some (CHR 0x00)
      else None)"

subsection \<open>The forward scan of \<open>[\<close>\<close>

text \<open>
  \<^verbatim>\<open>
  while(indentation) {
      index += 1;
      instruction = instructions[index];
      if(instructions[index] == '[') indentation += 1;
      else if(instructions[index] == ']') indentation -= 1;
  }
  \<close>
  The loop has no test of \<open>index\<close> against the size of the string.
\<close>

function skip_scan :: "string \<Rightarrow> nat \<Rightarrow> int \<Rightarrow> error + nat" where
  "skip_scan instructions i indentation =
     (if indentation = 0 then Inr i
      else case char_at instructions (i + 1) of
             None \<Rightarrow> Inl ReadPastEnd
           | Some c \<Rightarrow>
               if c = CHR ''['' then skip_scan instructions (i + 1) (indentation + 1)
               else if c = CHR '']'' then skip_scan instructions (i + 1) (indentation - 1)
               else skip_scan instructions (i + 1) indentation)"
  by pat_completeness auto
termination
  by (relation "measure (\<lambda>(instructions, i, indentation). Suc (length instructions) - i)")
     (auto simp: char_at_def split: if_splits)

subsection \<open>Console input\<close>

text \<open>\<open>get_input\<close> writes a newline and the prompt, reads one line, and throws when
  the stream is not good or the line is empty.\<close>

definition get_input :: "engine \<Rightarrow> error \<times> engine + char \<times> engine" where
  "get_input s =
     (let s1 = s\<lparr>cout := cout s @ [CHR 0x0A] @ ''> ''\<rparr> in
      case cin s1 of
        [] \<Rightarrow> Inl (InputError, s1)
      | input # rest \<Rightarrow>
          (let s2 = s1\<lparr>cin := rest\<rparr> in
           if input = [] then Inl (InputError, s2) else Inr (input ! 0, s2)))"

subsection \<open>One iteration of the loop\<close>

datatype step_result = Continue engine | Abort error engine

text \<open>The \<open>index += 1\<close> of the \<open>for\<close> statement, after the body.\<close>

definition advance :: "engine \<Rightarrow> step_result" where
  "advance s = Continue (s\<lparr>index := index s + 1\<rparr>)"

definition exceeded :: "int \<Rightarrow> engine \<Rightarrow> bool" where
  "exceeded cell_limit s \<longleftrightarrow> \<bar>greatest_cell s\<bar> + \<bar>lowest_cell s\<bar> > cell_limit"

text \<open>The chain of \<open>if\<close> and \<open>else if\<close> on the instruction.\<close>

definition execute :: "string \<Rightarrow> char \<Rightarrow> engine \<Rightarrow> step_result" where
  "execute instructions instruction s =
     (if instruction = CHR ''+'' then
        advance (s\<lparr>stack := (stack s)(pointer s \<mapsto> cell_at (stack s) (pointer s) + 1)\<rparr>)
      else if instruction = CHR ''-'' then
        advance (s\<lparr>stack := (stack s)(pointer s \<mapsto> cell_at (stack s) (pointer s) - 1)\<rparr>)
      else if instruction = CHR ''>'' then
        (let p = pointer s + 1 in
         advance (s\<lparr>pointer := p, right_shifts := right_shifts s + 1,
                    lowest_cell := min p (lowest_cell s)\<rparr>))
      else if instruction = CHR ''<'' then
        (let p = pointer s - 1 in
         advance (s\<lparr>pointer := p, left_shifts := left_shifts s + 1,
                    greatest_cell := max p (greatest_cell s)\<rparr>))
      else if instruction = CHR ''.'' then
        (let v = cell_at (stack s) (pointer s);
             output = (if sint v < 32 \<or> sint v > 126 then CHR ''?'' else char_of (unat v))
         in advance (s\<lparr>stack := touch (stack s) (pointer s), cout := cout s @ [output]\<rparr>))
      else if instruction = CHR '','' then
        (case get_input s of
           Inl (e, s') \<Rightarrow> Abort e s'
         | Inr (c, s') \<Rightarrow> advance (s'\<lparr>stack := (stack s')(pointer s' \<mapsto> of_char c)\<rparr>))
      else if instruction = CHR ''['' then
        (let s1 = s\<lparr>stack := touch (stack s) (pointer s)\<rparr> in
         if cell_at (stack s) (pointer s) = 0 then
           (case skip_scan instructions (index s1) 1 of
              Inl e \<Rightarrow> Abort e s1
            | Inr j \<Rightarrow> advance (s1\<lparr>index := j\<rparr>))
         else if loop_start_indices s1 = [] \<or>
                 (loop_start_indices s1 \<noteq> [] \<and> last (loop_start_indices s1) \<noteq> index s1)
           then advance (s1\<lparr>loop_start_indices := loop_start_indices s1 @ [index s1]\<rparr>)
         else advance s1)
      else if instruction = CHR '']'' then
        (let s1 = s\<lparr>stack := touch (stack s) (pointer s)\<rparr> in
         if cell_at (stack s) (pointer s) \<noteq> 0 then
           (if loop_start_indices s1 \<noteq> [] then
              advance (s1\<lparr>index := last (loop_start_indices s1)\<rparr>)
            else Abort UnbalancedLoop (s1\<lparr>cout := cout s1 @ ''Syntax error''\<rparr>))
         else if loop_start_indices s1 = [] then Abort PopEmpty s1
         else advance (s1\<lparr>loop_start_indices := butlast (loop_start_indices s1)\<rparr>))
      else advance s)"

text \<open>The body of the \<open>for\<close> statement: the instruction is fetched, the operation is
  counted, the limit is tested, and only then the chain above runs.\<close>

definition step :: "string \<Rightarrow> int \<Rightarrow> engine \<Rightarrow> step_result" where
  "step instructions cell_limit s0 =
     (let instruction = instructions ! index s0;
          s = s0\<lparr>operations := operations s0 + 1\<rparr>
      in
      if exceeded cell_limit s then Abort ResourceLimitExceeded s
      else execute instructions instruction s)"

text \<open>The state a step ends in, whether the loop goes on or the run is aborted.\<close>

fun state_of :: "step_result \<Rightarrow> engine" where
  "state_of (Continue s) = s"
| "state_of (Abort e s) = s"

subsection \<open>The loop\<close>

datatype outcome = Completed engine | Failed error engine

text \<open>\<open>for(int index = 0; index < instructions.size(); index += 1)\<close>. The loop
  need not end (\<open>+[]\<close> never does), so the run is a partial function: a run that never
  returns has the value \<open>None\<close>.\<close>

partial_function (option) run :: "string \<Rightarrow> int \<Rightarrow> engine \<Rightarrow> outcome option" where
  "run instructions cell_limit s =
     (if index s < length instructions then
        (case step instructions cell_limit s of
           Continue s' \<Rightarrow> run instructions cell_limit s'
         | Abort e s' \<Rightarrow> Some (Failed e s'))
      else Some (Completed s))"

declare run.simps [code]
declare skip_scan.simps [simp del]

subsection \<open>Notions used in the statements\<close>

text \<open>The net count of a sequence: its increments minus its decrements.\<close>

definition net :: "string \<Rightarrow> int" where
  "net xs = int (count_list xs CHR ''+'') - int (count_list xs CHR ''-'')"

text \<open>The first \<open>n\<close> iterations of the loop, to name the states a run passes through.\<close>

fun iterations :: "nat \<Rightarrow> string \<Rightarrow> int \<Rightarrow> engine \<Rightarrow> step_result" where
  "iterations 0 instructions cell_limit s = Continue s"
| "iterations (Suc n) instructions cell_limit s =
     (if index s < length instructions then
        (case step instructions cell_limit s of
           Continue s' \<Rightarrow> iterations n instructions cell_limit s'
         | Abort e s' \<Rightarrow> Abort e s')
      else Continue s)"

text \<open>Three states of actual runs, used as concrete inputs below: the state of
  \<open>>>><+\<close> before its last instruction, the state of \<open>++[-]\<close> at its \<open>]\<close>, and the
  state of \<open>+[>[-]<-]\<close> at its inner \<open>[\<close>.\<close>

definition limit_state :: engine where
  "limit_state =
     \<lparr> index = 4, pointer = 2, stack = Map.empty, loop_start_indices = [],
       lowest_cell = 0, greatest_cell = 2, operations = 4,
       left_shifts = 1, right_shifts = 3, cout = [], cin = [] \<rparr>"

definition repeat_state :: engine where
  "repeat_state =
     \<lparr> index = 4, pointer = 0, stack = [0 \<mapsto> 1], loop_start_indices = [2],
       lowest_cell = 0, greatest_cell = 0, operations = 4,
       left_shifts = 0, right_shifts = 0, cout = [], cin = [] \<rparr>"

definition inner_state :: engine where
  "inner_state =
     \<lparr> index = 3, pointer = 1, stack = [0 \<mapsto> 1], loop_start_indices = [1],
       lowest_cell = 0, greatest_cell = 0, operations = 3,
       left_shifts = 0, right_shifts = 1, cout = [], cin = [] \<rparr>"

section \<open>Facts about one iteration\<close>

lemma exceeded_operations [simp]:
  "exceeded cell_limit (s\<lparr>operations := n\<rparr>) = exceeded cell_limit s"
  by (simp add: exceeded_def)

lemma step_exceeded:
  "exceeded cell_limit s \<Longrightarrow>
   step instructions cell_limit s = Abort ResourceLimitExceeded (s\<lparr>operations := operations s + 1\<rparr>)"
  by (simp add: step_def Let_def)

lemma get_input_operations:
  "get_input s = Inl (e, s') \<Longrightarrow> operations s' = operations s"
  "get_input s = Inr (c, s') \<Longrightarrow> operations s' = operations s"
  by (auto simp: get_input_def Let_def split: list.splits if_splits)



lemma instruction_cases:
  obtains "c = CHR ''+''" | "c = CHR ''-''" | "c = CHR ''>''" | "c = CHR ''<''"
    | "c = CHR ''.''" | "c = CHR '',''" | "c = CHR ''[''" | "c = CHR '']''"
    | "c \<notin> set ''+-><.,[]''"
  by auto

lemma execute_operations:
  "operations (state_of (execute instructions c s)) = operations s"
proof (cases c rule: instruction_cases)
  case 6
  then show ?thesis
    by (auto simp: execute_def advance_def get_input_operations split: sum.splits prod.splits)
next
  case 7
  then show ?thesis
    by (simp add: execute_def advance_def Let_def split: sum.splits)
next
  case 8
  then show ?thesis
    by (simp add: execute_def advance_def Let_def)
qed (simp_all add: execute_def advance_def Let_def)

lemma step_operations:
  "operations (state_of (step instructions cell_limit s)) = operations s + 1"
  by (simp add: step_def Let_def execute_operations)


lemma skip_scan_close:
  "skip_scan instructions i d = Inr j \<Longrightarrow> 0 < d \<Longrightarrow>
   i < j \<and> j < length instructions \<and> instructions ! j = CHR '']''"
proof (induction instructions i d rule: skip_scan.induct)
  case (1 instructions i indentation)
  obtain c where c: "char_at instructions (i + 1) = Some c"
    using "1.prems" by (subst (asm) skip_scan.simps) (auto split: option.splits)
  show ?case
  proof (cases "c = CHR '']'' \<and> indentation = 1")
    case True
    then have "skip_scan instructions i indentation = Inr (i + 1)"
      using c by (subst skip_scan.simps, simp) (subst skip_scan.simps, simp)
    with "1.prems" have j: "j = i + 1" by simp
    from c True have "i + 1 < length instructions \<and> instructions ! (i + 1) = CHR '']''"
      by (auto simp: char_at_def split: if_splits)
    with j show ?thesis by simp
  next
    case False
    have "i + 1 < j \<and> j < length instructions \<and> instructions ! j = CHR '']''"
    proof (cases "c = CHR ''[''")
      case True
      with c "1.prems" have "skip_scan instructions (i + 1) (indentation + 1) = Inr j"
        by (subst (asm) skip_scan.simps) simp
      moreover have "0 < indentation + 1" using "1.prems" by simp
      ultimately show ?thesis using "1.IH"(1)[OF _ c True] "1.prems" by simp
    next
      case nb: False
      show ?thesis
      proof (cases "c = CHR '']''")
        case True
        with c nb "1.prems" have "skip_scan instructions (i + 1) (indentation - 1) = Inr j"
          by (subst (asm) skip_scan.simps) simp
        moreover have "0 < indentation - 1" using False True "1.prems" by simp
        ultimately show ?thesis using "1.IH"(2)[OF _ c nb True] "1.prems" by simp
      next
        case ne: False
        with c nb "1.prems" have "skip_scan instructions (i + 1) indentation = Inr j"
          by (subst (asm) skip_scan.simps) simp
        then show ?thesis using "1.IH"(3)[OF _ c nb ne] "1.prems" by simp
      qed
    qed
    then show ?thesis by simp
  qed
qed


lemma cell_at_upd [simp]: "cell_at (m(p \<mapsto> v)) p = v"
  by (simp add: cell_at_def)

lemma step_plus:
  "\<not> exceeded cell_limit s \<Longrightarrow> instructions ! index s = CHR ''+'' \<Longrightarrow>
   step instructions cell_limit s =
     Continue (s\<lparr>operations := operations s + 1,
                 stack := (stack s)(pointer s \<mapsto> cell_at (stack s) (pointer s) + 1),
                 index := index s + 1\<rparr>)"
  by (simp add: step_def execute_def advance_def Let_def)

lemma step_minus:
  "\<not> exceeded cell_limit s \<Longrightarrow> instructions ! index s = CHR ''-'' \<Longrightarrow>
   step instructions cell_limit s =
     Continue (s\<lparr>operations := operations s + 1,
                 stack := (stack s)(pointer s \<mapsto> cell_at (stack s) (pointer s) - 1),
                 index := index s + 1\<rparr>)"
  by (simp add: step_def execute_def advance_def Let_def)

lemma run_plus_minus:
  assumes "\<forall>k < length instructions. instructions ! k = CHR ''+'' \<or> instructions ! k = CHR ''-''"
    and "\<not> exceeded cell_limit s"
  shows "\<exists>s'. run instructions cell_limit s = Some (Completed s') \<and>
              pointer s' = pointer s \<and>
              cell_at (stack s') (pointer s) =
                cell_at (stack s) (pointer s) + word_of_int (net (drop (index s) instructions))"
  using assms(2)
proof (induction "length instructions - index s" arbitrary: s)
  case 0
  then have "run instructions cell_limit s = Some (Completed s)"
    by (subst run.simps) simp
  moreover have "drop (index s) instructions = []" using 0 by simp
  ultimately show ?case by (simp add: net_def)
next
  case (Suc n)
  then have lt: "index s < length instructions" by simp
  then have d: "drop (index s) instructions = instructions ! index s # drop (Suc (index s)) instructions"
    by (simp add: Cons_nth_drop_Suc)
  from lt assms(1) consider "instructions ! index s = CHR ''+''" | "instructions ! index s = CHR ''-''"
    by blast
  then show ?case
  proof cases
    case 1
    define s1 where "s1 = s\<lparr>operations := operations s + 1,
                 stack := (stack s)(pointer s \<mapsto> cell_at (stack s) (pointer s) + 1),
                 index := index s + 1\<rparr>"
    have st: "step instructions cell_limit s = Continue s1"
      unfolding s1_def using Suc.prems 1 by (rule step_plus)
    have "n = length instructions - index s1" using Suc.hyps(2) by (simp add: s1_def)
    moreover have "\<not> exceeded cell_limit s1" using Suc.prems by (simp add: s1_def exceeded_def)
    ultimately obtain s' where s': "run instructions cell_limit s1 = Some (Completed s')"
       "pointer s' = pointer s1"
       "cell_at (stack s') (pointer s1) =
                cell_at (stack s1) (pointer s1) + word_of_int (net (drop (index s1) instructions))"
      using Suc.hyps(1) by blast
    have "run instructions cell_limit s = Some (Completed s')"
      using lt st s'(1) by (subst run.simps) simp
    moreover have "net (drop (index s) instructions) = net (drop (index s1) instructions) + 1"
      using d 1 by (simp add: net_def s1_def)
    ultimately show ?thesis using s'(2,3) by (simp add: s1_def)
  next
    case 2
    define s1 where "s1 = s\<lparr>operations := operations s + 1,
                 stack := (stack s)(pointer s \<mapsto> cell_at (stack s) (pointer s) - 1),
                 index := index s + 1\<rparr>"
    have st: "step instructions cell_limit s = Continue s1"
      unfolding s1_def using Suc.prems 2 by (rule step_minus)
    have "n = length instructions - index s1" using Suc.hyps(2) by (simp add: s1_def)
    moreover have "\<not> exceeded cell_limit s1" using Suc.prems by (simp add: s1_def exceeded_def)
    ultimately obtain s' where s': "run instructions cell_limit s1 = Some (Completed s')"
       "pointer s' = pointer s1"
       "cell_at (stack s') (pointer s1) =
                cell_at (stack s1) (pointer s1) + word_of_int (net (drop (index s1) instructions))"
      using Suc.hyps(1) by blast
    have "run instructions cell_limit s = Some (Completed s')"
      using lt st s'(1) by (subst run.simps) simp
    moreover have "net (drop (index s) instructions) = net (drop (index s1) instructions) - 1"
      using d 2 by (simp add: net_def s1_def)
    ultimately show ?thesis using s'(2,3) by (simp add: s1_def)
  qed
qed

lemma step_close_repeat:
  assumes "instructions ! index s = CHR '']''"
    and "\<not> exceeded cell_limit s"
    and "cell_at (stack s) (pointer s) \<noteq> 0"
    and "loop_start_indices s \<noteq> []"
  shows "step instructions cell_limit s =
           Continue (s\<lparr>operations := operations s + 1,
                       stack := touch (stack s) (pointer s),
                       index := last (loop_start_indices s) + 1\<rparr>)"
  using assms by (simp add: step_def execute_def advance_def Let_def)

lemma step_open_zero:
  assumes "instructions ! index s = CHR ''[''"
    and "\<not> exceeded cell_limit s"
    and "cell_at (stack s) (pointer s) = 0"
  shows "step instructions cell_limit s =
           (case skip_scan instructions (index s) 1 of
              Inl e \<Rightarrow> Abort e (s\<lparr>operations := operations s + 1,
                                   stack := touch (stack s) (pointer s)\<rparr>)
            | Inr j \<Rightarrow> Continue (s\<lparr>operations := operations s + 1,
                                     stack := touch (stack s) (pointer s),
                                     index := j + 1\<rparr>))"
  using assms by (simp add: step_def execute_def advance_def Let_def split: sum.splits)

section \<open>Facts about runs\<close>

text \<open>A run is its first \<open>n\<close> iterations followed by the run from the state they reach.\<close>

lemma run_iterations:
  "run instructions cell_limit s =
     (case iterations n instructions cell_limit s of
        Continue s' \<Rightarrow> run instructions cell_limit s'
      | Abort e s' \<Rightarrow> Some (Failed e s'))"
proof (induction n arbitrary: s)
  case 0
  show ?case by simp
next
  case (Suc n)
  show ?case
  proof (cases "index s < length instructions")
    case True
    then show ?thesis
      using Suc.IH by (subst run.simps) (simp split: step_result.splits)
  next
    case False
    then show ?thesis by simp
  qed
qed

lemma limit_state_reached:
  "iterations 4 ''>>><+'' 1 (fresh []) = Continue limit_state"
  by (simp add: numeral_eq_Suc step_def execute_def advance_def exceeded_def fresh_def
      limit_state_def Let_def)

lemma repeat_state_reached:
  "iterations 4 ''++[-]'' 256 (fresh []) = Continue repeat_state"
  by (simp add: numeral_eq_Suc step_def execute_def advance_def exceeded_def fresh_def
      repeat_state_def Let_def cell_at_def touch_def)

lemma inner_state_reached:
  "iterations 3 ''+[>[-]<-]'' 256 (fresh []) = Continue inner_state"
  by (simp add: numeral_eq_Suc step_def execute_def advance_def exceeded_def fresh_def
      inner_state_def Let_def cell_at_def touch_def)

text \<open>What \<open>count_operators\<close> computes: the number of characters of the sequence that
  occur in the string \<open>+-./<>[]\<close> of the source.\<close>

lemma count_operators_filter:
  "count_operators instructions =
     int (length (filter (\<lambda>c. c \<in> set ''+-./<>[]'') instructions))"
proof -
  have "fold (\<lambda>instruction operator_count.
             if instruction \<in> set operators then operator_count + 1 else operator_count) xs n
         = n + int (length (filter (\<lambda>c. c \<in> set operators) xs))" for xs and n :: int
    by (induction xs arbitrary: n) simp_all
  then show ?thesis by (simp add: count_operators_def operators_def)
qed

text \<open>An unmatched \<open>]\<close> met with a non-zero cell is the one place where the source
  reports a syntax error.\<close>

lemma live_close_bracket:
  "run ''+]'' 256 (fresh []) =
     Some (Failed UnbalancedLoop
       \<lparr> index = 1, pointer = 0, stack = [0 \<mapsto> 1], loop_start_indices = [],
         lowest_cell = 0, greatest_cell = 0, operations = 2,
         left_shifts = 0, right_shifts = 0, cout = ''Syntax error'', cin = [] \<rparr>)"
  by (simp add: run.simps step_def execute_def advance_def exceeded_def fresh_def Let_def
      cell_at_def touch_def)

section \<open>The claims\<close>




text \<open>
  \<^bold>\<open>C2.\<close> The claim asks that the extremum updated on \<open>>\<close> records the greatest
  cursor address reached and the one updated on \<open><\<close> the lowest. The source updates
  \<open>lowest_cell\<close> with a minimum on \<open>>\<close> and \<open>greatest_cell\<close> with a maximum on \<open><\<close>:
  after the program \<open>>\<close> the cursor is at address 1 and both extrema are still 0, and
  after the program \<open><\<close> the cursor is at address -1 and both extrema are still 0.
\<close>

theorem extrema_after_one_shift:
  "run ''>'' 256 (fresh []) =
     Some (Completed
       \<lparr> index = 1, pointer = 1, stack = Map.empty, loop_start_indices = [],
         lowest_cell = 0, greatest_cell = 0, operations = 1,
         left_shifts = 0, right_shifts = 1, cout = [], cin = [] \<rparr>) \<and>
   run ''<'' 256 (fresh []) =
     Some (Completed
       \<lparr> index = 1, pointer = - 1, stack = Map.empty, loop_start_indices = [],
         lowest_cell = 0, greatest_cell = 0, operations = 1,
         left_shifts = 1, right_shifts = 0, cout = [], cin = [] \<rparr>)"
  by (simp add: run.simps step_def execute_def advance_def exceeded_def fresh_def Let_def)

text \<open>
  \<^bold>\<open>C3.\<close> The claim asks that the program \<open>]\<close> on a fresh engine fails with
  \<open>UnbalancedLoop\<close>. On a fresh engine the cell at the cursor is zero, so the source
  takes the branch that removes the last loop start, and calls \<open>pop_back\<close> on the empty
  vector; the test for an empty vector stands only in the branch of a non-zero cell
  (\<open>live_close_bracket\<close>). The run ends in \<open>PopEmpty\<close>, not in \<open>UnbalancedLoop\<close>.
\<close>

theorem lone_close_bracket:
  "run '']'' 256 (fresh []) =
     Some (Failed PopEmpty
       \<lparr> index = 0, pointer = 0, stack = [0 \<mapsto> 0], loop_start_indices = [],
         lowest_cell = 0, greatest_cell = 0, operations = 1,
         left_shifts = 0, right_shifts = 0, cout = [], cin = [] \<rparr>)"
  by (simp add: run.simps step_def execute_def advance_def exceeded_def fresh_def Let_def
      cell_at_def touch_def)

text \<open>
  \<^bold>\<open>C4\<close>, as stated, fails: the claim has the instruction index equal to the top of the
  loop stack after a repeating \<open>]\<close>, so that the \<open>[\<close> is evaluated again. In \<open>++[-]\<close>,
  at the \<open>]\<close> with cell 1 and loop stack \<open>[2]\<close>, the next instruction index is 3, not 2,
  and the instruction there is \<open>-\<close>, not \<open>[\<close>.
\<close>

theorem close_bracket_target_counterexample:
  "''++[-]'' ! index repeat_state = CHR '']'' \<and>
   cell_at (stack repeat_state) (pointer repeat_state) \<noteq> 0 \<and>
   loop_start_indices repeat_state \<noteq> [] \<and>
   last (loop_start_indices repeat_state) = 2 \<and>
   index (state_of (step ''++[-]'' 256 repeat_state)) = 3 \<and>
   ''++[-]'' ! index (state_of (step ''++[-]'' 256 repeat_state)) = CHR ''-''"
  by (simp add: repeat_state_def step_def execute_def advance_def exceeded_def Let_def)

text \<open>
  \<^bold>\<open>C4\<close>, amended: when \<open>]\<close> is executed within the limit, with a non-zero cell at the
  cursor and a non-empty loop stack, the index is set to the top of the stack, which
  is not popped, and the increment of the \<open>for\<close> statement then moves it on: the next
  instruction processed is the one after the recorded \<open>[\<close>. Nothing but the index,
  the operation count and the tape entry created by reading the cell changes.
\<close>

theorem close_bracket_repeat:
  assumes "instructions ! index s = CHR '']''"
    and "\<bar>greatest_cell s\<bar> + \<bar>lowest_cell s\<bar> \<le> cell_limit"
    and "cell_at (stack s) (pointer s) \<noteq> 0"
    and "loop_start_indices s \<noteq> []"
  shows "step instructions cell_limit s =
           Continue (s\<lparr>operations := operations s + 1,
                       stack := touch (stack s) (pointer s),
                       index := last (loop_start_indices s) + 1\<rparr>) \<and>
         loop_start_indices (state_of (step instructions cell_limit s)) = loop_start_indices s \<and>
         index (state_of (step instructions cell_limit s)) = last (loop_start_indices s) + 1"
proof -
  have "\<not> exceeded cell_limit s" using assms(2) by (simp add: exceeded_def)
  then have "step instructions cell_limit s =
           Continue (s\<lparr>operations := operations s + 1,
                       stack := touch (stack s) (pointer s),
                       index := last (loop_start_indices s) + 1\<rparr>)"
    using assms(1,3,4) by (simp add: step_close_repeat)
  then show ?thesis by simp
qed

theorem close_bracket_repeat_witness:
  "''++[-]'' ! index repeat_state = CHR '']'' \<and>
   \<bar>greatest_cell repeat_state\<bar> + \<bar>lowest_cell repeat_state\<bar> \<le> 256 \<and>
   cell_at (stack repeat_state) (pointer repeat_state) \<noteq> 0 \<and>
   loop_start_indices repeat_state \<noteq> [] \<and>
   loop_start_indices (state_of (step ''++[-]'' 256 repeat_state)) = [2] \<and>
   index (state_of (step ''++[-]'' 256 repeat_state)) = 3"
  using close_bracket_repeat [of "''++[-]''" repeat_state 256]
  by (simp add: repeat_state_def)

text \<open>
  \<^bold>\<open>C5.\<close> The claim asks that the forward scan of \<open>[\<close> reads only indices of the
  instruction sequence, and that the program \<open>[\<close> on a zero cell completes or fails as
  malformed. The scan of the source tests only the nesting depth: on the program \<open>[\<close>
  it reads index 1, the terminator of the string, and then index 2, which is beyond the
  string, where the source has no defined behaviour. The run neither completes nor
  reports a malformed program.
\<close>

theorem lone_open_bracket:
  "skip_scan ''['' 0 1 = Inl ReadPastEnd \<and>
   run ''['' 256 (fresh []) =
     Some (Failed ReadPastEnd
       \<lparr> index = 0, pointer = 0, stack = [0 \<mapsto> 0], loop_start_indices = [],
         lowest_cell = 0, greatest_cell = 0, operations = 1,
         left_shifts = 0, right_shifts = 0, cout = [], cin = [] \<rparr>)"
proof -
  have sc: "skip_scan ''['' 0 1 = Inl ReadPastEnd"
    by (simp add: skip_scan.simps char_at_def)
  then show ?thesis
    by (simp add: run.simps step_def execute_def advance_def exceeded_def fresh_def Let_def
      cell_at_def touch_def)
qed

text \<open>
  \<^bold>\<open>C6.\<close> The claim asks that \<open>count_operators\<close> counts exactly the characters
  \<open>+ - < > . , [ ]\<close>. The string of operators in the source is \<open>+-./<>[]\<close>: it has
  \<open>/\<close> where the comma should be. The sequence \<open>,\<close> is counted as 0 operators and the
  sequence \<open>/\<close> as 1.
\<close>

theorem count_operators_comma_slash:
  "count_operators '','' = 0 \<and> count_operators ''/'' = 1"
  by (simp add: count_operators_def operators_def)

text \<open>
  \<^bold>\<open>C7.\<close> The program \<open>++++++++[>++++<-]>.\<close> on a fresh engine with the default
  limit 256 returns, and completes: the cell at address 1 holds 32, the output is the
  single character of code 32 (a space), the cursor is at address 1 and the loop stack
  is empty.
\<close>

theorem multiply_program:
  "(case run ''++++++++[>++++<-]>.'' 256 (fresh []) of
      Some (Completed s) \<Rightarrow>
        stack s 1 = Some 32 \<and> cout s = '' '' \<and> pointer s = 1 \<and> loop_start_indices s = []
    | _ \<Rightarrow> False)"
  by code_simp

text \<open>
  \<^bold>\<open>C8.\<close> A program of \<open>+\<close> and \<open>-\<close> only, started at its first instruction within
  the limit on a cell that holds zero, returns and completes with the cursor where it
  was, and the cell at the cursor is the net count of the program as an 8-bit word:
  read as an unsigned byte, it is the net count modulo 256.
\<close>

theorem plus_minus_wraps:
  assumes "set instructions \<subseteq> {CHR ''+'', CHR ''-''}"
    and "index s = 0"
    and "cell_at (stack s) (pointer s) = 0"
    and "\<bar>greatest_cell s\<bar> + \<bar>lowest_cell s\<bar> \<le> cell_limit"
  shows "\<exists>s'. run instructions cell_limit s = Some (Completed s') \<and>
              pointer s' = pointer s \<and>
              cell_at (stack s') (pointer s) = word_of_int (net instructions) \<and>
              uint (cell_at (stack s') (pointer s)) = net instructions mod 256"
proof -
  have "\<forall>k < length instructions. instructions ! k = CHR ''+'' \<or> instructions ! k = CHR ''-''"
    using assms(1) by (auto dest: nth_mem)
  moreover have "\<not> exceeded cell_limit s" using assms(4) by (simp add: exceeded_def)
  ultimately obtain s' where "run instructions cell_limit s = Some (Completed s')"
    "pointer s' = pointer s"
    "cell_at (stack s') (pointer s) =
                cell_at (stack s) (pointer s) + word_of_int (net (drop (index s) instructions))"
    using run_plus_minus by blast
  then show ?thesis using assms(2,3) by (auto simp: uint_word_of_int)
qed

theorem plus_minus_wraps_witness:
  "set ''--+'' \<subseteq> {CHR ''+'', CHR ''-''} \<and>
   index (fresh []) = 0 \<and>
   cell_at (stack (fresh [])) (pointer (fresh [])) = 0 \<and>
   \<bar>greatest_cell (fresh [])\<bar> + \<bar>lowest_cell (fresh [])\<bar> \<le> 256 \<and>
   (\<exists>s'. run ''--+'' 256 (fresh []) = Some (Completed s') \<and>
         pointer s' = 0 \<and> uint (cell_at (stack s') 0) = 255)"
proof -
  have "net ''--+'' = - 1" by (simp add: net_def)
  moreover have "cell_at (stack (fresh [])) (pointer (fresh [])) = 0"
    by (simp add: fresh_def cell_at_def)
  ultimately show ?thesis
    using plus_minus_wraps [of "''--+''" "fresh []" 256]
    by (auto simp: fresh_def)
qed

text \<open>
  \<^bold>\<open>C9.\<close> An iteration on a \<open>[\<close> whose cell at the cursor is zero leaves the loop
  stack as it was, whatever the stack holds and however the iteration ends: by going
  on after the scan, by the limit, or in the scan itself.
\<close>

theorem open_bracket_zero_keeps_stack:
  assumes "instructions ! index s = CHR ''[''"
    and "cell_at (stack s) (pointer s) = 0"
  shows "loop_start_indices (state_of (step instructions cell_limit s)) = loop_start_indices s"
proof (cases "exceeded cell_limit s")
  case True
  then show ?thesis by (simp add: step_exceeded)
next
  case False
  then show ?thesis
    using assms by (simp add: step_open_zero split: sum.splits)
qed

theorem open_bracket_zero_keeps_stack_witness:
  "''+[>[-]<-]'' ! index inner_state = CHR ''['' \<and>
   cell_at (stack inner_state) (pointer inner_state) = 0 \<and>
   loop_start_indices inner_state = [1] \<and>
   loop_start_indices (state_of (step ''+[>[-]<-]'' 256 inner_state)) = [1]"
  using open_bracket_zero_keeps_stack [of "''+[>[-]<-]''" inner_state 256]
  by (simp add: inner_state_def cell_at_def)

text \<open>
  \<^bold>\<open>C10.\<close> When a \<open>[\<close> on a zero cell is processed within the limit and its scan
  stops at index \<open>j\<close>, the whole iteration counts one operation, although the index
  moves from the \<open>[\<close> past the \<open>]\<close> at \<open>j\<close>: the instructions in between are neither
  counted nor tested against the limit (the scan does not take the limit at all), and
  the iteration goes on, whatever they are.
\<close>

theorem skipped_instructions_not_counted:
  assumes "instructions ! index s = CHR ''[''"
    and "cell_at (stack s) (pointer s) = 0"
    and "\<bar>greatest_cell s\<bar> + \<bar>lowest_cell s\<bar> \<le> cell_limit"
    and "skip_scan instructions (index s) 1 = Inr j"
  shows "step instructions cell_limit s =
           Continue (s\<lparr>operations := operations s + 1,
                       stack := touch (stack s) (pointer s),
                       index := j + 1\<rparr>) \<and>
         index s < j \<and> j < length instructions \<and> instructions ! j = CHR '']'' \<and>
         operations (state_of (step instructions cell_limit s)) = operations s + 1"
proof -
  have "\<not> exceeded cell_limit s" using assms(3) by (simp add: exceeded_def)
  then have "step instructions cell_limit s =
           Continue (s\<lparr>operations := operations s + 1,
                       stack := touch (stack s) (pointer s),
                       index := j + 1\<rparr>)"
    using assms(1,2,4) by (simp add: step_open_zero)
  moreover have "index s < j \<and> j < length instructions \<and> instructions ! j = CHR '']''"
    using assms(4) by (rule skip_scan_close) simp
  ultimately show ?thesis by simp
qed

theorem skipped_instructions_not_counted_witness:
  "''[+++]'' ! index (fresh []) = CHR ''['' \<and>
   cell_at (stack (fresh [])) (pointer (fresh [])) = 0 \<and>
   \<bar>greatest_cell (fresh [])\<bar> + \<bar>lowest_cell (fresh [])\<bar> \<le> 256 \<and>
   skip_scan ''[+++]'' (index (fresh [])) 1 = Inr 4 \<and>
   index (state_of (step ''[+++]'' 256 (fresh []))) = 5 \<and>
   operations (state_of (step ''[+++]'' 256 (fresh []))) = 1"
proof -
  have sc: "skip_scan ''[+++]'' (index (fresh [])) 1 = Inr 4"
    by (simp add: fresh_def skip_scan.simps char_at_def)
  show ?thesis
    using skipped_instructions_not_counted [of "''[+++]''" "fresh []" 256 4] sc
    by (simp add: fresh_def cell_at_def)
qed

end
